theory Spec2Isabelle
  imports Complex_Main
begin

section \<open>The build-queue controller of the bot\<close>

text \<open>
  This theory embeds \<^verbatim>\<open>src/bot/logic/building/queueController.ts\<close> (the class
  \<^verbatim>\<open>QueueController\<close>) and the method \<^verbatim>\<open>getPriority\<close> of
  \<^verbatim>\<open>src/bot/logic/building/antiGroundStaticDefence.ts\<close>.

  Conventions of the embedding.
  \<^item> A JavaScript \<^verbatim>\<open>number\<close> is a real number. Rounding of IEEE doubles and the
    non-finite values (\<^verbatim>\<open>Infinity\<close>, \<^verbatim>\<open>NaN\<close>) are not represented; the one
    place of the embedded code that can leave the finite numbers, a division by zero in
    \<^verbatim>\<open>AntiGroundStaticDefence.getPriority\<close>, returns \<open>None\<close> in the model.
  \<^item> A value that may be \<^verbatim>\<open>undefined\<close> or \<^verbatim>\<open>null\<close> is an \<open>option\<close>.
  \<^item> The objects of the game API (\<^verbatim>\<open>GameApi\<close>, \<^verbatim>\<open>ProductionApi\<close>,
    \<^verbatim>\<open>PlayerData\<close>, \<^verbatim>\<open>TechnoRules\<close>) come from the package
    \<^verbatim>\<open>@chronodivide/game-api\<close>; they are records holding the fields and query
    methods that the code reads. The rules database holds one \<^verbatim>\<open>TechnoRules\<close>
    object per item type, so the reference comparisons \<^verbatim>\<open>r == option\<close> and
    \<^verbatim>\<open>decision.unit != current\<close> are equality of records.
  \<^item> The calls on \<^verbatim>\<open>ActionsApi\<close> and on the \<^verbatim>\<open>logger\<close> callback are the
    effects of the code: every function that makes such calls returns the list of
    them, in the order the calls are made.
\<close>

type_synonym number = real

subsection \<open>Data of the game API\<close>

datatype QueueType = Structures | Armory | Infantry | Vehicles | Aircrafts | Ships

datatype QueueStatus = Idle | Active | OnHold | Ready

type_synonym ObjectType = nat

record TechnoRules =
  name :: string
  cost :: number
  type :: ObjectType

record QueueItem =
  rules :: TechnoRules
  quantity :: nat

record QueueData =
  queueData_type :: QueueType
  status :: QueueStatus
  items :: "QueueItem list"

record PlayerData =
  playerData_name :: string
  credits :: number
  startLocation :: "number \<times> number"

record GameApi =
  getVisibleUnits :: "string \<Rightarrow> string \<Rightarrow> (TechnoRules \<Rightarrow> bool) \<Rightarrow> nat list"

record ProductionApi =
  getAvailableObjects :: "QueueType \<Rightarrow> TechnoRules list"
  getQueueData :: "QueueType \<Rightarrow> QueueData"

text \<open>The fields of \<^verbatim>\<open>GlobalThreat\<close> (\<^verbatim>\<open>../threat/threat\<close>) that the code reads.\<close>

record GlobalThreat =
  totalOffensiveLandThreat :: number
  totalAvailableAntiGroundFirepower :: number
  totalDefensivePower :: number

record Location =
  rx :: number
  ry :: number

subsection \<open>The imports from the building module\<close>

text \<open>The methods of the interface \<^verbatim>\<open>AiBuildingRules\<close> that the controller calls.\<close>

record AiBuildingRules =
  getPriority :: "GameApi \<Rightarrow> PlayerData \<Rightarrow> TechnoRules \<Rightarrow> GlobalThreat option \<Rightarrow> number"
  getPlacementLocation :: "GameApi \<Rightarrow> PlayerData \<Rightarrow> TechnoRules \<Rightarrow> Location option"

text \<open>
  \<^verbatim>\<open>queueController.ts\<close> imports the table \<^verbatim>\<open>BUILDING_NAME_TO_RULES\<close>, the constant
  \<^verbatim>\<open>DEFAULT_BUILDING_PRIORITY\<close> and the function \<^verbatim>\<open>getDefaultPlacementLocation\<close>
  from \<^verbatim>\<open>./building.js\<close>, which is not among the sources. They are parameters of
  the embedding, collected in one record.
\<close>

record Building =
  BUILDING_NAME_TO_RULES :: "string \<rightharpoonup> AiBuildingRules"
  DEFAULT_BUILDING_PRIORITY :: number
  getDefaultPlacementLocation ::
    "GameApi \<Rightarrow> PlayerData \<Rightarrow> number \<times> number \<Rightarrow> TechnoRules \<Rightarrow> Location option"

record TechnoRulesWithPriority =
  unit :: TechnoRules
  priority :: number

subsection \<open>Effects\<close>

datatype Action =
    QueueForProduction QueueType string ObjectType nat
  | PlaceBuilding string number number
  | UnqueueFromProduction QueueType string ObjectType nat
  | PauseProduction QueueType
  | ResumeProduction QueueType

text \<open>
  The messages passed to \<^verbatim>\<open>logger\<close> are template strings; a message is kept as
  the template it instantiates together with the values spliced into it.
\<close>

datatype LogMessage =
    LogDecision string string
  | LogBuildPriority "(string \<times> number) list"
  | LogDequeueing string string string
  | LogPausing string number number
  | LogResumingCredits string
  | LogResumingWeight string number number

datatype Effect = Log LogMessage | Act Action

fun commands :: "Effect list \<Rightarrow> Action list" where
  "commands [] = []"
| "commands (Log m # es) = commands es"
| "commands (Act a # es) = a # commands es"

subsection \<open>\<^verbatim>\<open>queueController.ts\<close>\<close>

fun queueTypeToName :: "QueueType \<Rightarrow> string" where
  "queueTypeToName Structures = ''Structures''"
| "queueTypeToName Armory = ''Armory''"
| "queueTypeToName Infantry = ''Infantry''"
| "queueTypeToName Vehicles = ''Vehicles''"
| "queueTypeToName Aircrafts = ''Aircrafts''"
| "queueTypeToName Ships = ''Ships''"

definition getPriorityForBuildingOption ::
  "Building \<Rightarrow> TechnoRules \<Rightarrow> GameApi \<Rightarrow> PlayerData \<Rightarrow> GlobalThreat option \<Rightarrow> number" where
  "getPriorityForBuildingOption B option game playerStatus threatCache =
     (case BUILDING_NAME_TO_RULES B (name option) of
        Some logic \<Rightarrow> getPriority logic game playerStatus option threatCache
      | None \<Rightarrow>
          DEFAULT_BUILDING_PRIORITY B
            - real (length (getVisibleUnits game (playerData_name playerStatus) ''self''
                              (\<lambda>r. r = option))))"

definition getBestLocationForStructure ::
  "Building \<Rightarrow> GameApi \<Rightarrow> PlayerData \<Rightarrow> TechnoRules \<Rightarrow> Location option" where
  "getBestLocationForStructure B game playerData objectReady =
     (case BUILDING_NAME_TO_RULES B (name objectReady) of
        Some logic \<Rightarrow> getPlacementLocation logic game playerData objectReady
      | None \<Rightarrow>
          getDefaultPlacementLocation B game playerData (startLocation playerData) objectReady)"

text \<open>
  \<^verbatim>\<open>getBestOptionForBuilding\<close>: the \<^verbatim>\<open>forEach\<close> pushes the options of positive
  priority onto \<^verbatim>\<open>priorityQueue\<close> in the order of \<^verbatim>\<open>options\<close>;
  \<^verbatim>\<open>Array.prototype.sort\<close> is a stable sort, here ascending in the priority;
  \<^verbatim>\<open>pop\<close> returns the last element, or \<^verbatim>\<open>undefined\<close> on the empty array.
\<close>

definition pushOption ::
  "Building \<Rightarrow> GameApi \<Rightarrow> PlayerData \<Rightarrow> GlobalThreat option \<Rightarrow> TechnoRules
     \<Rightarrow> TechnoRulesWithPriority list \<Rightarrow> TechnoRulesWithPriority list" where
  "pushOption B game playerData threatCache option priorityQueue =
     (let priority = getPriorityForBuildingOption B option game playerData threatCache
      in if priority > 0 then priorityQueue @ [\<lparr>unit = option, priority = priority\<rparr>]
         else priorityQueue)"

definition pop :: "'a list \<Rightarrow> 'a option" where
  "pop xs = (if xs = [] then None else Some (last xs))"

definition getBestOptionForBuilding ::
  "Building \<Rightarrow> GameApi \<Rightarrow> TechnoRules list \<Rightarrow> GlobalThreat option \<Rightarrow> PlayerData \<Rightarrow> bool
     \<Rightarrow> Effect list \<times> TechnoRulesWithPriority option" where
  "getBestOptionForBuilding B game options threatCache playerData debug =
     (let priorityQueue = fold (pushOption B game playerData threatCache) options [];
          priorityQueue = sort_key priority priorityQueue
      in (if length priorityQueue > 0 \<and> debug
          then [Log (LogBuildPriority (map (\<lambda>item. (name (unit item), priority item)) priorityQueue))]
          else [],
          pop priorityQueue))"

definition updateBuildQueue ::
  "Building \<Rightarrow> GameApi \<Rightarrow> ProductionApi \<Rightarrow> PlayerData \<Rightarrow> GlobalThreat option \<Rightarrow> QueueType
     \<Rightarrow> TechnoRulesWithPriority option \<Rightarrow> number \<Rightarrow> number \<Rightarrow> Effect list" where
  "updateBuildQueue B game productionApi playerData threatCache queueType decision
       totalWeightAcrossQueues totalCostAcrossQueues =
     (let myCredits = credits playerData;
          queueData = getQueueData productionApi queueType
      in
      if status queueData = Idle then
        (case decision of
           Some d \<Rightarrow>
             [Log (LogDecision (queueTypeToName queueType) (name (unit d))),
              Act (QueueForProduction queueType (name (unit d)) (type (unit d)) 1)]
         | None \<Rightarrow> [])
      else if status queueData = Ready \<and> length (items queueData) > 0 then
        (let objectReady = rules (items queueData ! 0)
         in if queueType = Structures \<or> queueType = Armory then
              (case getBestLocationForStructure B game playerData objectReady of
                 Some location \<Rightarrow>
                   [Act (PlaceBuilding (name objectReady) (rx location) (ry location))]
               | None \<Rightarrow> [])
            else [])
      else if status queueData = Active \<and> length (items queueData) > 0 \<and> decision \<noteq> None then
        (let current = rules (items queueData ! 0);
             options = getAvailableObjects productionApi queueType;
             d = the decision
         in if unit d \<noteq> current then
              (let currentItemPriority =
                     getPriorityForBuildingOption B current game playerData threatCache;
                   newItemPriority = priority d
               in if newItemPriority > currentItemPriority * 2 then
                    [Log (LogDequeueing (queueTypeToName (queueData_type queueData))
                            (name current) (name (unit d))),
                     Act (UnqueueFromProduction (queueData_type queueData)
                            (name current) (type current) 1)]
                  else [])
            else
              (if totalCostAcrossQueues > myCredits
                    \<and> priority d < totalWeightAcrossQueues * 0.25 then
                 [Log (LogPausing (queueTypeToName (queueData_type queueData))
                         (priority d) totalWeightAcrossQueues),
                  Act (PauseProduction (queueData_type queueData))]
               else []))
      else if status queueData = OnHold then
        (if myCredits \<ge> totalCostAcrossQueues then
           [Log (LogResumingCredits (queueTypeToName (queueData_type queueData))),
            Act (ResumeProduction (queueData_type queueData))]
         else if decision \<noteq> None \<and> priority (the decision) \<ge> totalWeightAcrossQueues * 0.25 then
           [Log (LogResumingWeight (queueTypeToName (queueData_type queueData))
                   (priority (the decision)) totalWeightAcrossQueues),
            Act (ResumeProduction (queueData_type queueData))]
         else [])
      else [])"

text \<open>
  \<^verbatim>\<open>onAiUpdate\<close>. The array \<^verbatim>\<open>decisions\<close> holds, for each of the six queues in
  order, the queue and the result of \<^verbatim>\<open>getBestOptionForBuilding\<close>, and is then
  filtered to the entries whose decision is present. The two totals are
  \<^verbatim>\<open>reduce\<close>d from this array, and \<^verbatim>\<open>forEach\<close> calls \<^verbatim>\<open>updateBuildQueue\<close> once
  per entry of it. \<open>onAiUpdate_decide\<close> is the callback of the \<^verbatim>\<open>map\<close>;
  \<open>onAiUpdate_calls\<close> is the list of the arguments of the calls of \<^verbatim>\<open>updateBuildQueue\<close>;
  \<open>onAiUpdate\<close> is the list of all effects of the tick. The class has no fields:
  a tick reads nothing but its arguments.
\<close>

definition queues :: "QueueType list" where
  "queues = [Structures, Armory, Infantry, Vehicles, Aircrafts, Ships]"

record QueueDecision =
  queue :: QueueType
  decision :: "TechnoRulesWithPriority option"

definition onAiUpdate_decide ::
  "Building \<Rightarrow> GameApi \<Rightarrow> ProductionApi \<Rightarrow> PlayerData \<Rightarrow> GlobalThreat option
     \<Rightarrow> QueueType \<Rightarrow> QueueDecision" where
  "onAiUpdate_decide B game productionApi playerData threatCache queueType =
     (let options = getAvailableObjects productionApi queueType
      in \<lparr>queue = queueType,
          decision = snd (getBestOptionForBuilding B game options threatCache playerData False)\<rparr>)"

definition onAiUpdate_decisions ::
  "Building \<Rightarrow> GameApi \<Rightarrow> ProductionApi \<Rightarrow> PlayerData \<Rightarrow> GlobalThreat option
     \<Rightarrow> QueueDecision list" where
  "onAiUpdate_decisions B game productionApi playerData threatCache =
     filter (\<lambda>decision. QueueDecision.decision decision \<noteq> None)
       (map (onAiUpdate_decide B game productionApi playerData threatCache) queues)"

definition totalWeightAcrossQueues :: "QueueDecision list \<Rightarrow> number" where
  "totalWeightAcrossQueues decisions =
     foldl (\<lambda>pV cV. pV + cV) 0
       (map (\<lambda>decision. priority (the (QueueDecision.decision decision))) decisions)"

definition totalCostAcrossQueues :: "QueueDecision list \<Rightarrow> number" where
  "totalCostAcrossQueues decisions =
     foldl (\<lambda>pV cV. pV + cV) 0
       (map (\<lambda>decision. cost (unit (the (QueueDecision.decision decision)))) decisions)"

definition onAiUpdate_calls ::
  "Building \<Rightarrow> GameApi \<Rightarrow> ProductionApi \<Rightarrow> PlayerData \<Rightarrow> GlobalThreat option
     \<Rightarrow> (QueueType \<times> TechnoRulesWithPriority option \<times> number \<times> number) list" where
  "onAiUpdate_calls B game productionApi playerData threatCache =
     (let decisions = onAiUpdate_decisions B game productionApi playerData threatCache
      in map (\<lambda>decision.
                (queue decision, QueueDecision.decision decision,
                 totalWeightAcrossQueues decisions, totalCostAcrossQueues decisions))
           decisions)"

definition onAiUpdate ::
  "Building \<Rightarrow> GameApi \<Rightarrow> ProductionApi \<Rightarrow> PlayerData \<Rightarrow> GlobalThreat option \<Rightarrow> Effect list" where
  "onAiUpdate B game productionApi playerData threatCache =
     concat (map (\<lambda>queueType.
                    fst (getBestOptionForBuilding B game
                           (getAvailableObjects productionApi queueType)
                           threatCache playerData False))
               queues)
     @ concat (map (\<lambda>(queueType, decision, totalWeightAcrossQueues, totalCostAcrossQueues).
                      updateBuildQueue B game productionApi playerData threatCache queueType
                        decision totalWeightAcrossQueues totalCostAcrossQueues)
                 (onAiUpdate_calls B game productionApi playerData threatCache))"

subsection \<open>\<^verbatim>\<open>antiGroundStaticDefence.ts\<close>\<close>

text \<open>
  The constructor parameters of the class \<^verbatim>\<open>AntiGroundStaticDefence\<close> are its
  fields. \<^verbatim>\<open>numBuildingsOwnedOfType\<close> is imported from \<^verbatim>\<open>./buildingRules.js\<close>,
  which is not among the sources: it is a parameter of the method. The two
  divisions of the branch without a threat cache leave the finite numbers when
  \<^verbatim>\<open>technoRules.cost\<close> or \<^verbatim>\<open>baseAmount\<close> is zero; the model returns \<open>None\<close> there.
  In the branch with a threat cache the divisor \<^verbatim>\<open>Math.max(1, denominator)\<close> is at
  least one.
\<close>

record AntiGroundStaticDefence =
  basePriority :: number
  baseAmount :: number
  groundStrength :: number

definition AntiGroundStaticDefence_getPriority ::
  "(GameApi \<Rightarrow> PlayerData \<Rightarrow> TechnoRules \<Rightarrow> nat) \<Rightarrow> AntiGroundStaticDefence
     \<Rightarrow> GameApi \<Rightarrow> PlayerData \<Rightarrow> TechnoRules \<Rightarrow> GlobalThreat option \<Rightarrow> number option" where
  "AntiGroundStaticDefence_getPriority numBuildingsOwnedOfType this game playerData
       technoRules threatCache =
     (case threatCache of
        Some threat \<Rightarrow>
          (let denominator =
                 totalAvailableAntiGroundFirepower threat + totalDefensivePower threat
                   + groundStrength this
           in if totalOffensiveLandThreat threat > denominator * 1.1 then
                Some (basePriority this
                        * (totalOffensiveLandThreat threat / max 1 denominator))
              else Some 0)
      | None \<Rightarrow>
          (if cost technoRules = 0 \<or> baseAmount this = 0 then None
           else
             (let strengthPerCost = (groundStrength this / cost technoRules) * 1000;
                  numOwned = numBuildingsOwnedOfType game playerData technoRules
              in Some (basePriority this * (1.0 - real numOwned / baseAmount this)
                         * strengthPerCost))))"

subsection \<open>The candidates of a queue\<close>

text \<open>
  The options of positive priority, each paired with its priority, in the order of
  \<^verbatim>\<open>options\<close>: the contents of \<^verbatim>\<open>priorityQueue\<close> after the \<^verbatim>\<open>forEach\<close>
  (lemma \<open>fold_pushOption\<close>).
\<close>

definition candidates ::
  "Building \<Rightarrow> GameApi \<Rightarrow> PlayerData \<Rightarrow> GlobalThreat option \<Rightarrow> TechnoRules list
     \<Rightarrow> TechnoRulesWithPriority list" where
  "candidates B game playerData threatCache options =
     map (\<lambda>option. \<lparr>unit = option, priority = getPriorityForBuildingOption B option game playerData threatCache\<rparr>)
       (filter (\<lambda>option. getPriorityForBuildingOption B option game playerData threatCache > 0) options)"

subsection \<open>Example data\<close>

text \<open>
  Concrete values of the parameters, for evaluating the functions: a rules table
  with no registered strategy (every item takes the fallback priority), a game in
  which the player owns a given list of items, and a production API given by the
  available objects and the status and items of each queue.
\<close>

definition ex_rules :: "string \<Rightarrow> number \<Rightarrow> TechnoRules" where
  "ex_rules n c = \<lparr>name = n, cost = c, type = 1\<rparr>"

definition ex_game :: "TechnoRules list \<Rightarrow> GameApi" where
  "ex_game owned =
     \<lparr>getVisibleUnits =
        (\<lambda>playerName relation p. if relation = ''self'' then [0..<length (filter p owned)] else [])\<rparr>"

definition ex_building :: "number \<Rightarrow> Building" where
  "ex_building d =
     \<lparr>BUILDING_NAME_TO_RULES = Map.empty,
      DEFAULT_BUILDING_PRIORITY = d,
      getDefaultPlacementLocation =
        (\<lambda>game playerData start objectReady. Some \<lparr>rx = fst start, ry = snd start\<rparr>)\<rparr>"

definition ex_player :: "number \<Rightarrow> PlayerData" where
  "ex_player c = \<lparr>playerData_name = ''bot'', credits = c, startLocation = (10, 20)\<rparr>"

definition ex_queue :: "QueueType \<Rightarrow> QueueStatus \<Rightarrow> TechnoRules list \<Rightarrow> QueueData" where
  "ex_queue q s rs =
     \<lparr>queueData_type = q, status = s, items = map (\<lambda>r. \<lparr>rules = r, quantity = 1\<rparr>) rs\<rparr>"

definition ex_production ::
  "(QueueType \<Rightarrow> TechnoRules list) \<Rightarrow> (QueueType \<Rightarrow> QueueStatus \<times> TechnoRules list) \<Rightarrow> ProductionApi" where
  "ex_production avail q =
     \<lparr>getAvailableObjects = avail,
      getQueueData = (\<lambda>queueType. ex_queue queueType (fst (q queueType)) (snd (q queueType)))\<rparr>"

definition ex_tank :: TechnoRules where "ex_tank = ex_rules ''HTNK'' 900"
definition ex_jeep :: TechnoRules where "ex_jeep = ex_rules ''FV'' 600"
definition ex_gi :: TechnoRules where "ex_gi = ex_rules ''E1'' 100"
definition ex_power :: TechnoRules where "ex_power = ex_rules ''GAPOWR'' 800"

definition ex_ready_structure :: ProductionApi where
  "ex_ready_structure =
     ex_production (\<lambda>q. if q = Vehicles then [ex_tank] else [])
       (\<lambda>q. if q = Structures then (Ready, [ex_power]) else (Idle, []))"

definition ex_held_infantry_no_options :: ProductionApi where
  "ex_held_infantry_no_options =
     ex_production (\<lambda>q. [])
       (\<lambda>q. if q = Infantry then (OnHold, [ex_gi]) else (Idle, []))"

definition ex_held_infantry :: ProductionApi where
  "ex_held_infantry =
     ex_production (\<lambda>q. if q = Infantry then [ex_gi] else if q = Vehicles then [ex_tank] else [])
       (\<lambda>q. if q = Infantry then (OnHold, [ex_gi]) else (Idle, []))"

definition ex_active_vehicles :: "TechnoRules \<Rightarrow> ProductionApi" where
  "ex_active_vehicles current =
     ex_production (\<lambda>q. if q = Vehicles then [ex_tank, ex_jeep] else [])
       (\<lambda>q. if q = Vehicles then (Active, [current]) else (Idle, []))"

definition ex_pillbox :: TechnoRules where "ex_pillbox = ex_rules ''GAPILE'' 500"

definition ex_defence :: "number \<Rightarrow> AntiGroundStaticDefence" where
  "ex_defence strength = \<lparr>basePriority = 17, baseAmount = 1, groundStrength = strength\<rparr>"

definition ex_numBuildingsOwnedOfType :: "GameApi \<Rightarrow> PlayerData \<Rightarrow> TechnoRules \<Rightarrow> nat" where
  "ex_numBuildingsOwnedOfType game playerData technoRules =
     length (getVisibleUnits game (playerData_name playerData) ''self'' (\<lambda>r. r = technoRules))"

definition ex_threat :: "number \<Rightarrow> GlobalThreat" where
  "ex_threat enemy =
     \<lparr>totalOffensiveLandThreat = enemy, totalAvailableAntiGroundFirepower = 100,
      totalDefensivePower = 50\<rparr>"

section \<open>Properties\<close>

subsection \<open>Auxiliary facts\<close>

lemma ex_fallback [simp]:
  "getPriorityForBuildingOption (ex_building d) r (ex_game owned) p t
     = d - real (length (filter (\<lambda>x. x = r) owned))"
  by (simp add: getPriorityForBuildingOption_def ex_building_def ex_game_def)

lemmas ex_defs = ex_rules_def ex_tank_def ex_jeep_def ex_gi_def
  ex_production_def ex_queue_def ex_player_def

lemmas tick_defs = onAiUpdate_def onAiUpdate_calls_def onAiUpdate_decisions_def
  onAiUpdate_decide_def queues_def totalWeightAcrossQueues_def totalCostAcrossQueues_def
  getBestOptionForBuilding_def pushOption_def pop_def

lemma fold_pushOption:
  "fold (pushOption B game playerData threatCache) options acc
     = acc @ candidates B game playerData threatCache options"
  by (induction options arbitrary: acc) (simp_all add: candidates_def pushOption_def Let_def)

lemma last_insort_key:
  "sorted (map f ys) \<Longrightarrow> ys \<noteq> [] \<Longrightarrow>
     last (insort_key f x ys) = (if f (last ys) < f x then x else last ys)"
proof (induction ys)
  case Nil
  then show ?case by simp
next
  case (Cons y ys)
  show ?case
  proof (cases "ys = []")
    case True
    then show ?thesis by auto
  next
    case False
    with Cons.prems have "f y \<le> f (last ys)" by simp
    moreover from Cons False
    have "last (insort_key f x ys) = (if f (last ys) < f x then x else last ys)" by simp
    ultimately show ?thesis using False by auto
  qed
qed

lemma pop_sort_key_Cons:
  "pop (sort_key f (x # xs)) =
     (case pop (sort_key f xs) of None \<Rightarrow> Some x
      | Some y \<Rightarrow> if f y < f x then Some x else Some y)"
  by (cases "sort_key f xs = []") (simp_all add: pop_def last_insort_key)

lemma sort_key_eq_Nil: "sort_key f xs = [] \<longleftrightarrow> xs = []"
  by (metis length_sort length_0_conv)

lemma pop_sort_key_None: "pop (sort_key f xs) = None \<longleftrightarrow> xs = []"
  by (simp add: pop_def sort_key_eq_Nil)

lemma pop_sort_key_last_max:
  "pop (sort_key f xs) = Some d \<Longrightarrow>
     \<exists>as bs. xs = as @ d # bs \<and> (\<forall>a\<in>set as. f a \<le> f d) \<and> (\<forall>b\<in>set bs. f b < f d)"
proof (induction xs arbitrary: d)
  case Nil
  then show ?case by (simp add: pop_def)
next
  case (Cons x xs)
  show ?case
  proof (cases "pop (sort_key f xs)")
    case None
    then have "xs = []" by (simp add: pop_sort_key_None)
    with Cons.prems have "x # xs = [] @ d # [] \<and> (\<forall>a\<in>set []. f a \<le> f d) \<and> (\<forall>b\<in>set []. f b < f d)"
      by (simp add: pop_def)
    then show ?thesis by blast
  next
    case (Some y)
    from Cons.IH [OF Some] obtain as bs where
      xs: "xs = as @ y # bs" and as: "\<forall>a\<in>set as. f a \<le> f y" and bs: "\<forall>b\<in>set bs. f b < f y"
      by blast
    show ?thesis
    proof (cases "f y < f x")
      case True
      with Cons.prems Some have d: "d = x" by (simp add: pop_sort_key_Cons del: sort_key_simps)
      have "\<forall>b\<in>set xs. f b < f x" using xs as bs True by auto
      with d have "x # xs = [] @ d # xs \<and> (\<forall>a\<in>set []. f a \<le> f d) \<and> (\<forall>b\<in>set xs. f b < f d)"
        by simp
      then show ?thesis by blast
    next
      case False
      with Cons.prems Some have d: "d = y" by (simp add: pop_sort_key_Cons del: sort_key_simps)
      have "x # xs = (x # as) @ d # bs \<and> (\<forall>a\<in>set (x # as). f a \<le> f d) \<and> (\<forall>b\<in>set bs. f b < f d)"
        using xs as bs False d by auto
      then show ?thesis by blast
    qed
  qed
qed

lemma snd_getBestOptionForBuilding:
  "snd (getBestOptionForBuilding B game options threatCache playerData debug)
     = pop (sort_key priority (candidates B game playerData threatCache options))"
  by (simp add: getBestOptionForBuilding_def Let_def fold_pushOption)

lemma fst_getBestOptionForBuilding_False:
  "fst (getBestOptionForBuilding B game options threatCache playerData False) = []"
  by (simp add: getBestOptionForBuilding_def Let_def)

lemma foldl_plus_sum_list: "foldl (\<lambda>pV cV. pV + cV) a xs = a + sum_list (xs :: real list)"
  by (induction xs arbitrary: a) simp_all

lemma sum_list_the_filter:
  "sum_list (map (\<lambda>x. g (the (h x))) (filter (\<lambda>x. h x \<noteq> None) xs))
     = sum_list (map (\<lambda>x. case h x of None \<Rightarrow> (0::real) | Some y \<Rightarrow> g y) xs)"
  by (induction xs) (auto split: option.splits)

lemma queue_onAiUpdate_decide [simp]:
  "queue (onAiUpdate_decide B game productionApi playerData threatCache q) = q"
  by (simp add: onAiUpdate_decide_def Let_def)

lemma in_queues: "q \<in> set queues"
  by (cases q) (simp_all add: queues_def)

lemma totalWeightAcrossQueues_decisions:
  "totalWeightAcrossQueues (onAiUpdate_decisions B game productionApi playerData threatCache)
     = (\<Sum>q\<leftarrow>queues. case decision (onAiUpdate_decide B game productionApi playerData threatCache q) of
                       None \<Rightarrow> 0 | Some x \<Rightarrow> priority x)"
  by (simp add: totalWeightAcrossQueues_def onAiUpdate_decisions_def foldl_plus_sum_list
      sum_list_the_filter [where h = decision and g = priority] comp_def del: not_None_eq)

lemma totalCostAcrossQueues_decisions:
  "totalCostAcrossQueues (onAiUpdate_decisions B game productionApi playerData threatCache)
     = (\<Sum>q\<leftarrow>queues. case decision (onAiUpdate_decide B game productionApi playerData threatCache q) of
                       None \<Rightarrow> 0 | Some x \<Rightarrow> cost (unit x))"
  by (simp add: totalCostAcrossQueues_def onAiUpdate_decisions_def foldl_plus_sum_list
      sum_list_the_filter [where h = decision and g = "\<lambda>x. cost (unit x)"] comp_def
      del: not_None_eq)

lemma onAiUpdate_calls_eq:
  "onAiUpdate_calls B game productionApi playerData threatCache =
     map (\<lambda>q. (q, decision (onAiUpdate_decide B game productionApi playerData threatCache q),
               totalWeightAcrossQueues (onAiUpdate_decisions B game productionApi playerData threatCache),
               totalCostAcrossQueues (onAiUpdate_decisions B game productionApi playerData threatCache)))
       (filter (\<lambda>q. decision (onAiUpdate_decide B game productionApi playerData threatCache q) \<noteq> None)
          queues)"
  by (simp add: onAiUpdate_calls_def Let_def onAiUpdate_decisions_def filter_map comp_def)

lemma onAiUpdate_eq:
  "onAiUpdate B game productionApi playerData threatCache =
     concat (map (\<lambda>(queueType, decision, totalWeightAcrossQueues, totalCostAcrossQueues).
                      updateBuildQueue B game productionApi playerData threatCache queueType
                        decision totalWeightAcrossQueues totalCostAcrossQueues)
                 (onAiUpdate_calls B game productionApi playerData threatCache))"
  by (simp add: onAiUpdate_def fst_getBestOptionForBuilding_False)

lemma onAiUpdate_step_subset:
  assumes "decision (onAiUpdate_decide B game productionApi playerData threatCache q) = Some d"
  shows "set (updateBuildQueue B game productionApi playerData threatCache q (Some d)
                (totalWeightAcrossQueues (onAiUpdate_decisions B game productionApi playerData threatCache))
                (totalCostAcrossQueues (onAiUpdate_decisions B game productionApi playerData threatCache)))
           \<subseteq> set (onAiUpdate B game productionApi playerData threatCache)"
proof -
  let ?W = "totalWeightAcrossQueues (onAiUpdate_decisions B game productionApi playerData threatCache)"
  let ?C = "totalCostAcrossQueues (onAiUpdate_decisions B game productionApi playerData threatCache)"
  have "(q, Some d, ?W, ?C) \<in> set (onAiUpdate_calls B game productionApi playerData threatCache)"
    using assms in_queues [of q] by (auto simp: onAiUpdate_calls_eq)
  then show ?thesis
    by (fastforce simp: onAiUpdate_eq)
qed

lemma ex_building_simps [simp]:
  "BUILDING_NAME_TO_RULES (ex_building d) n = None"
  "DEFAULT_BUILDING_PRIORITY (ex_building d) = d"
  "getDefaultPlacementLocation (ex_building d) game playerData start objectReady
     = Some \<lparr>rx = fst start, ry = snd start\<rparr>"
  by (simp_all add: ex_building_def)

lemma ex_owned [simp]:
  "length (getVisibleUnits (ex_game owned) n ''self'' p) = length (filter p owned)"
  by (simp add: ex_game_def)

lemma length_filter_filter_le:
  "length (filter P (filter Q xs)) \<le> length (filter P xs)"
  by (induction xs) auto

lemma nonneg_mult_pos_iff: "0 < (k::real) \<Longrightarrow> 0 \<le> a * k \<longleftrightarrow> 0 \<le> a"
  by (auto simp: zero_le_mult_iff)

lemma nonneg_pos_mult_iff: "0 < (k::real) \<Longrightarrow> 0 \<le> k * a \<longleftrightarrow> 0 \<le> a"
  by (auto simp: zero_le_mult_iff)

subsection \<open>The selection of the best option of a queue\<close>

text \<open>
  Claim C4. \<^verbatim>\<open>getBestOptionForBuilding\<close> returns nothing exactly when no option has a
  positive priority. Otherwise it returns an option of the input together with its
  own priority, which is positive, no option listed before it has a greater
  priority, and every option listed after it has a strictly smaller one: the result
  is the maximum among the options of positive priority, and among options of equal
  maximal priority it is the one listed last.
\<close>

theorem getBestOptionForBuilding_last_maximum:
  "let score = (\<lambda>option. getPriorityForBuildingOption B option game playerData threatCache);
       best = snd (getBestOptionForBuilding B game options threatCache playerData debug)
   in (best = None \<longleftrightarrow> (\<forall>option\<in>set options. score option \<le> 0))
      \<and> (\<forall>d. best = Some d \<longrightarrow>
             priority d = score (unit d) \<and> 0 < priority d
             \<and> (\<exists>before after.
                   options = before @ unit d # after
                   \<and> (\<forall>option\<in>set before. score option \<le> priority d)
                   \<and> (\<forall>option\<in>set after. score option < priority d)))"
proof -
  let ?score = "\<lambda>option. getPriorityForBuildingOption B option game playerData threatCache"
  let ?cands = "candidates B game playerData threatCache"
  let ?best = "\<lambda>options. pop (sort_key priority (?cands options))"
  have none: "?best os = None \<longleftrightarrow> (\<forall>option\<in>set os. ?score option \<le> 0)" for os
    by (auto simp: pop_sort_key_None candidates_def filter_empty_conv not_less)
  have some: "?best os = Some d \<Longrightarrow>
      priority d = ?score (unit d) \<and> 0 < priority d
      \<and> (\<exists>before after. os = before @ unit d # after
             \<and> (\<forall>option\<in>set before. ?score option \<le> priority d)
             \<and> (\<forall>option\<in>set after. ?score option < priority d))" for os d
  proof (induction os arbitrary: d)
    case Nil
    then show ?case by (simp add: candidates_def pop_def)
  next
    case (Cons x xs)
    show ?case
    proof (cases "0 < ?score x")
      case False
      then have same: "?cands (x # xs) = ?cands xs" by (simp add: candidates_def)
      with Cons.prems have "?best xs = Some d" by simp
      from Cons.IH [OF this] obtain before after where
        d: "priority d = ?score (unit d)" "0 < priority d" and
        xs: "xs = before @ unit d # after" and
        b: "\<forall>option\<in>set before. ?score option \<le> priority d" and
        a: "\<forall>option\<in>set after. ?score option < priority d"
        by blast
      have "x # xs = (x # before) @ unit d # after
              \<and> (\<forall>option\<in>set (x # before). ?score option \<le> priority d)
              \<and> (\<forall>option\<in>set after. ?score option < priority d)"
        using xs b a d False by auto
      with d show ?thesis by blast
    next
      case True
      let ?c = "\<lparr>unit = x, priority = ?score x\<rparr>"
      from True have cons: "?cands (x # xs) = ?c # ?cands xs" by (simp add: candidates_def)
      show ?thesis
      proof (cases "?best xs")
        case None
        with Cons.prems cons have d: "d = ?c"
          by (simp add: pop_sort_key_Cons del: sort_key_simps)
        from None have "\<forall>option\<in>set xs. ?score option \<le> 0" by (simp only: none)
        with True d have "x # xs = [] @ unit d # xs
              \<and> (\<forall>option\<in>set []. ?score option \<le> priority d)
              \<and> (\<forall>option\<in>set xs. ?score option < priority d)"
          by auto
        moreover from d True have "priority d = ?score (unit d) \<and> 0 < priority d" by simp
        ultimately show ?thesis by blast
      next
        case (Some y)
        from Cons.IH [OF Some] obtain before after where
          y: "priority y = ?score (unit y)" "0 < priority y" and
          xs: "xs = before @ unit y # after" and
          b: "\<forall>option\<in>set before. ?score option \<le> priority y" and
          a: "\<forall>option\<in>set after. ?score option < priority y"
          by blast
        show ?thesis
        proof (cases "priority y < ?score x")
          case lt: True
          with Cons.prems cons Some have d: "d = ?c"
            by (simp add: pop_sort_key_Cons del: sort_key_simps)
          have "\<forall>option\<in>set xs. ?score option < ?score x"
            using xs y a b lt by auto
          with d have "x # xs = [] @ unit d # xs
              \<and> (\<forall>option\<in>set []. ?score option \<le> priority d)
              \<and> (\<forall>option\<in>set xs. ?score option < priority d)"
            by simp
          moreover from d True have "priority d = ?score (unit d) \<and> 0 < priority d" by simp
          ultimately show ?thesis by blast
        next
          case ge: False
          with Cons.prems cons Some have d: "d = y"
            by (simp add: pop_sort_key_Cons del: sort_key_simps)
          have "x # xs = (x # before) @ unit d # after
              \<and> (\<forall>option\<in>set (x # before). ?score option \<le> priority d)
              \<and> (\<forall>option\<in>set after. ?score option < priority d)"
            using xs a b ge d by auto
          with y d show ?thesis by blast
        qed
      qed
    qed
  qed
  show ?thesis
    unfolding Let_def snd_getBestOptionForBuilding
    using none [of options] some [of options] by blast
qed

text \<open>
  An instance: with no registered strategy, a default priority of 50 and two owned
  \<^verbatim>\<open>E1\<close>, the options \<^verbatim>\<open>HTNK\<close>, \<^verbatim>\<open>FV\<close>, \<^verbatim>\<open>E1\<close> score 50, 50 and 48; the
  result is \<^verbatim>\<open>FV\<close>, the later of the two options of priority 50.
\<close>

theorem getBestOptionForBuilding_last_maximum_witness:
  "snd (getBestOptionForBuilding (ex_building 50) (ex_game [ex_gi, ex_gi])
          [ex_tank, ex_jeep, ex_gi] None (ex_player 0) False)
     = Some \<lparr>unit = ex_jeep, priority = 50\<rparr>
   \<and> getPriorityForBuildingOption (ex_building 50) ex_tank (ex_game [ex_gi, ex_gi]) (ex_player 0) None = 50
   \<and> getPriorityForBuildingOption (ex_building 50) ex_jeep (ex_game [ex_gi, ex_gi]) (ex_player 0) None = 50
   \<and> getPriorityForBuildingOption (ex_building 50) ex_gi (ex_game [ex_gi, ex_gi]) (ex_player 0) None = 48"
proof -
  have best: "snd (getBestOptionForBuilding (ex_building 50) (ex_game [ex_gi, ex_gi])
          [ex_tank, ex_jeep, ex_gi] None (ex_player 0) False)
     = Some \<lparr>unit = ex_jeep, priority = 50\<rparr>"
    by (simp add: getBestOptionForBuilding_def pushOption_def pop_def ex_defs)
  have "priority \<lparr>unit = ex_jeep, priority = 50\<rparr>
          = getPriorityForBuildingOption (ex_building 50) (unit \<lparr>unit = ex_jeep, priority = 50\<rparr>)
              (ex_game [ex_gi, ex_gi]) (ex_player 0) None"
    using best getBestOptionForBuilding_last_maximum [of "ex_building 50" "ex_game [ex_gi, ex_gi]"
        "ex_player 0" None "[ex_tank, ex_jeep, ex_gi]" False]
    unfolding Let_def by blast
  then show ?thesis using best by (simp add: ex_defs)
qed

subsection \<open>The calls of \<^verbatim>\<open>updateBuildQueue\<close> in a tick\<close>

text \<open>
  Claim C1, as the code has it. On every tick \<^verbatim>\<open>updateBuildQueue\<close> is called exactly
  for those of the six queues for which \<^verbatim>\<open>getBestOptionForBuilding\<close> returned a
  decision, once each and in the order of the six, with that decision; the effects
  of the tick are the effects of these calls. A queue without a decision is dropped
  by the \<^verbatim>\<open>filter\<close> before the \<^verbatim>\<open>forEach\<close>, whatever its status.
\<close>

theorem onAiUpdate_steps_queues_with_decision:
  "map (\<lambda>(queueType, decision, totalWeight, totalCost). (queueType, decision))
       (onAiUpdate_calls B game productionApi playerData threatCache)
     = map (\<lambda>q. (q, decision (onAiUpdate_decide B game productionApi playerData threatCache q)))
         (filter (\<lambda>q. decision (onAiUpdate_decide B game productionApi playerData threatCache q) \<noteq> None)
            queues)
   \<and> onAiUpdate B game productionApi playerData threatCache
       = concat (map (\<lambda>(queueType, decision, totalWeight, totalCost).
                        updateBuildQueue B game productionApi playerData threatCache queueType
                          decision totalWeight totalCost)
                   (onAiUpdate_calls B game productionApi playerData threatCache))"
  by (simp add: onAiUpdate_eq) (simp add: onAiUpdate_calls_eq comp_def)

text \<open>An instance: only the vehicles queue has an option, and only it is stepped.\<close>

theorem onAiUpdate_steps_queues_with_decision_witness:
  "map (\<lambda>(queueType, decision, totalWeight, totalCost). (queueType, decision))
       (onAiUpdate_calls (ex_building 50) (ex_game []) ex_ready_structure (ex_player 1000) None)
     = [(Vehicles, Some \<lparr>unit = ex_tank, priority = 50\<rparr>)]"
  using onAiUpdate_steps_queues_with_decision
    [of "ex_building 50" "ex_game []" ex_ready_structure "ex_player 1000" None]
  by (simp add: onAiUpdate_decide_def queues_def getBestOptionForBuilding_def pushOption_def
      pop_def ex_defs ex_ready_structure_def)

text \<open>
  Claim C1 as stated fails. In the same tick the structures queue is
  \<^verbatim>\<open>Ready\<close> with a power plant at its front and has no available option: it has no
  decision, no call of \<^verbatim>\<open>updateBuildQueue\<close> is made for it, and the tick issues the
  one command of the vehicles queue. A call for the structures queue without a
  decision would have placed the building.
\<close>

theorem onAiUpdate_skips_queue_without_decision:
  "decision (onAiUpdate_decide (ex_building 50) (ex_game []) ex_ready_structure (ex_player 1000)
               None Structures) = None
   \<and> map fst (onAiUpdate_calls (ex_building 50) (ex_game []) ex_ready_structure
                 (ex_player 1000) None) = [Vehicles]
   \<and> commands (onAiUpdate (ex_building 50) (ex_game []) ex_ready_structure (ex_player 1000) None)
       = [QueueForProduction Vehicles ''HTNK'' 1 1]
   \<and> commands (updateBuildQueue (ex_building 50) (ex_game []) ex_ready_structure
                  (ex_player 1000) None Structures None 50 900)
       = [PlaceBuilding ''GAPOWR'' 10 20]"
  by (simp add: tick_defs updateBuildQueue_def getBestLocationForStructure_def
      ex_defs ex_ready_structure_def ex_power_def)

subsection \<open>The totals of a tick\<close>

text \<open>
  Claim C5. Every call of \<^verbatim>\<open>updateBuildQueue\<close> in a tick is for a queue with a
  decision and receives, as total weight, the sum over the six queues of the
  priority of the decision of this tick (nothing for a queue without one) and, as
  total cost, the sum of the costs of the decided items: all calls receive the
  complete totals. The totals are functions of the arguments of the tick alone.
\<close>

theorem onAiUpdate_totals:
  "\<forall>(queueType, d, totalWeight, totalCost)
      \<in> set (onAiUpdate_calls B game productionApi playerData threatCache).
     d = decision (onAiUpdate_decide B game productionApi playerData threatCache queueType)
     \<and> d \<noteq> None
     \<and> totalWeight
         = (\<Sum>q\<leftarrow>queues.
              case decision (onAiUpdate_decide B game productionApi playerData threatCache q) of
                None \<Rightarrow> 0 | Some x \<Rightarrow> priority x)
     \<and> totalCost
         = (\<Sum>q\<leftarrow>queues.
              case decision (onAiUpdate_decide B game productionApi playerData threatCache q) of
                None \<Rightarrow> 0 | Some x \<Rightarrow> cost (unit x))"
  by (auto simp: onAiUpdate_calls_eq totalWeightAcrossQueues_decisions
      totalCostAcrossQueues_decisions)

text \<open>
  An instance: decisions for the infantry queue (priority 48, cost 100) and the
  vehicles queue (priority 50, cost 900); both calls receive 98 and 1000.
\<close>

theorem onAiUpdate_totals_witness:
  "onAiUpdate_calls (ex_building 50) (ex_game [ex_gi, ex_gi]) ex_held_infantry (ex_player 0) None
     = [(Infantry, Some \<lparr>unit = ex_gi, priority = 48\<rparr>, 98, 1000),
        (Vehicles, Some \<lparr>unit = ex_tank, priority = 50\<rparr>, 98, 1000)]
   \<and> (\<Sum>q\<leftarrow>queues.
         case decision (onAiUpdate_decide (ex_building 50) (ex_game [ex_gi, ex_gi])
                          ex_held_infantry (ex_player 0) None q) of
           None \<Rightarrow> 0 | Some x \<Rightarrow> priority x) = 98
   \<and> (\<Sum>q\<leftarrow>queues.
         case decision (onAiUpdate_decide (ex_building 50) (ex_game [ex_gi, ex_gi])
                          ex_held_infantry (ex_player 0) None q) of
           None \<Rightarrow> 0 | Some x \<Rightarrow> cost (unit x)) = 1000"
proof -
  have calls: "onAiUpdate_calls (ex_building 50) (ex_game [ex_gi, ex_gi]) ex_held_infantry
                 (ex_player 0) None
     = [(Infantry, Some \<lparr>unit = ex_gi, priority = 48\<rparr>, 98, 1000),
        (Vehicles, Some \<lparr>unit = ex_tank, priority = 50\<rparr>, 98, 1000)]"
    by (simp add: tick_defs ex_defs ex_held_infantry_def)
  from onAiUpdate_totals [of "ex_building 50" "ex_game [ex_gi, ex_gi]" ex_held_infantry
      "ex_player 0" None]
  show ?thesis unfolding calls by simp
qed

subsection \<open>Resuming a queue on hold\<close>

text \<open>
  Claim C2, as the code has it. In a tick in which the credits are at least the
  total cost, every queue that is \<^verbatim>\<open>OnHold\<close> and has a decision gets a resume
  action, whatever the priority of the decision.
\<close>

theorem onAiUpdate_resumes_held_queue_with_decision:
  assumes "decision (onAiUpdate_decide B game productionApi playerData threatCache q) = Some d"
    and "status (getQueueData productionApi q) = OnHold"
    and "credits playerData
           \<ge> totalCostAcrossQueues (onAiUpdate_decisions B game productionApi playerData threatCache)"
  shows "Act (ResumeProduction (queueData_type (getQueueData productionApi q)))
           \<in> set (onAiUpdate B game productionApi playerData threatCache)"
proof -
  let ?W = "totalWeightAcrossQueues (onAiUpdate_decisions B game productionApi playerData threatCache)"
  let ?C = "totalCostAcrossQueues (onAiUpdate_decisions B game productionApi playerData threatCache)"
  have "Act (ResumeProduction (queueData_type (getQueueData productionApi q)))
          \<in> set (updateBuildQueue B game productionApi playerData threatCache q (Some d) ?W ?C)"
    using assms(2,3) by (simp add: updateBuildQueue_def Let_def)
  with onAiUpdate_step_subset [OF assms(1)] show ?thesis by blast
qed

text \<open>
  An instance: the infantry queue is on hold, the decisions cost 100 and 900, and the
  player has 1000 credits.
\<close>

theorem onAiUpdate_resumes_held_queue_with_decision_witness:
  "decision (onAiUpdate_decide (ex_building 50) (ex_game []) ex_held_infantry (ex_player 1000)
               None Infantry) = Some \<lparr>unit = ex_gi, priority = 50\<rparr>
   \<and> status (getQueueData ex_held_infantry Infantry) = OnHold
   \<and> totalCostAcrossQueues (onAiUpdate_decisions (ex_building 50) (ex_game []) ex_held_infantry
                               (ex_player 1000) None) = 1000
   \<and> credits (ex_player 1000) = 1000
   \<and> Act (ResumeProduction Infantry)
       \<in> set (onAiUpdate (ex_building 50) (ex_game []) ex_held_infantry (ex_player 1000) None)"
proof -
  have d: "decision (onAiUpdate_decide (ex_building 50) (ex_game []) ex_held_infantry (ex_player 1000)
               None Infantry) = Some \<lparr>unit = ex_gi, priority = 50\<rparr>"
    by (simp add: tick_defs ex_defs ex_held_infantry_def)
  have s: "status (getQueueData ex_held_infantry Infantry) = OnHold"
    by (simp add: ex_defs ex_held_infantry_def)
  have c: "totalCostAcrossQueues (onAiUpdate_decisions (ex_building 50) (ex_game []) ex_held_infantry
                               (ex_player 1000) None) = 1000"
    by (simp add: tick_defs ex_defs ex_held_infantry_def)
  have p: "credits (ex_player 1000) = 1000" by (simp add: ex_defs)
  have t: "queueData_type (getQueueData ex_held_infantry Infantry) = Infantry"
    by (simp add: ex_defs ex_held_infantry_def)
  from onAiUpdate_resumes_held_queue_with_decision [OF d s] c p t
  have "Act (ResumeProduction Infantry)
       \<in> set (onAiUpdate (ex_building 50) (ex_game []) ex_held_infantry (ex_player 1000) None)"
    by simp
  with d s c p show ?thesis by blast
qed

text \<open>
  Claim C2 as stated fails. No queue has an available option, so the total cost is
  0 and the credits cover it; the infantry queue is \<^verbatim>\<open>OnHold\<close>, has no decision and
  is not stepped: the tick has no effect at all. A call of \<^verbatim>\<open>updateBuildQueue\<close> for
  it without a decision would have resumed it.
\<close>

theorem onAiUpdate_leaves_held_queue_without_decision:
  "status (getQueueData ex_held_infantry_no_options Infantry) = OnHold
   \<and> totalCostAcrossQueues (onAiUpdate_decisions (ex_building 50) (ex_game [])
                               ex_held_infantry_no_options (ex_player 1000) None) = 0
   \<and> credits (ex_player 1000) = 1000
   \<and> onAiUpdate (ex_building 50) (ex_game []) ex_held_infantry_no_options (ex_player 1000) None = []
   \<and> commands (updateBuildQueue (ex_building 50) (ex_game []) ex_held_infantry_no_options
                  (ex_player 1000) None Infantry None 0 0)
       = [ResumeProduction Infantry]"
  by (simp add: tick_defs updateBuildQueue_def ex_defs ex_held_infantry_no_options_def)

subsection \<open>The step of an active queue\<close>

text \<open>
  Claim C3. For an \<^verbatim>\<open>Active\<close> queue whose front item is not the item of the
  decision, the step issues exactly one command, the dequeue of the front item,
  when the priority of the decision is strictly greater than twice the priority of
  the front item, and no command otherwise. The priority of the front item is
  computed by \<^verbatim>\<open>getPriorityForBuildingOption\<close> from the arguments of this step; the
  credits and the totals play no part.
\<close>

theorem updateBuildQueue_cancel_iff_twice_current:
  assumes "status (getQueueData productionApi queueType) = Active"
    and "items (getQueueData productionApi queueType) \<noteq> []"
    and "unit d \<noteq> rules (items (getQueueData productionApi queueType) ! 0)"
  shows "let queueData = getQueueData productionApi queueType;
             current = rules (items queueData ! 0);
             currentItemPriority =
               getPriorityForBuildingOption B current game playerData threatCache
         in commands (updateBuildQueue B game productionApi playerData threatCache queueType
                        (Some d) totalWeight totalCost)
              = (if priority d > currentItemPriority * 2
                 then [UnqueueFromProduction (queueData_type queueData) (name current)
                         (type current) 1]
                 else [])"
  using assms by (simp add: updateBuildQueue_def Let_def)

text \<open>
  Two instances, with a decision of priority 50 against a front item of priority 20
  (dequeued) and of priority 25 (kept: 50 is not greater than twice 25).
\<close>

theorem updateBuildQueue_cancel_iff_twice_current_witness:
  "status (getQueueData (ex_active_vehicles ex_jeep) Vehicles) = Active
   \<and> items (getQueueData (ex_active_vehicles ex_jeep) Vehicles) \<noteq> []
   \<and> unit \<lparr>unit = ex_tank, priority = 50\<rparr>
       \<noteq> rules (items (getQueueData (ex_active_vehicles ex_jeep) Vehicles) ! 0)
   \<and> getPriorityForBuildingOption (ex_building 50) ex_jeep (ex_game (replicate 30 ex_jeep))
        (ex_player 0) None = 20
   \<and> commands (updateBuildQueue (ex_building 50) (ex_game (replicate 30 ex_jeep))
                  (ex_active_vehicles ex_jeep) (ex_player 0) None Vehicles
                  (Some \<lparr>unit = ex_tank, priority = 50\<rparr>) 50 900)
       = [UnqueueFromProduction Vehicles ''FV'' 1 1]
   \<and> getPriorityForBuildingOption (ex_building 50) ex_jeep (ex_game (replicate 25 ex_jeep))
        (ex_player 0) None = 25
   \<and> commands (updateBuildQueue (ex_building 50) (ex_game (replicate 25 ex_jeep))
                  (ex_active_vehicles ex_jeep) (ex_player 0) None Vehicles
                  (Some \<lparr>unit = ex_tank, priority = 50\<rparr>) 50 900)
       = []"
proof -
  have a: "status (getQueueData (ex_active_vehicles ex_jeep) Vehicles) = Active"
    by (simp add: ex_defs ex_active_vehicles_def)
  have i: "items (getQueueData (ex_active_vehicles ex_jeep) Vehicles) \<noteq> []"
    by (simp add: ex_defs ex_active_vehicles_def)
  have u: "unit \<lparr>unit = ex_tank, priority = 50\<rparr>
       \<noteq> rules (items (getQueueData (ex_active_vehicles ex_jeep) Vehicles) ! 0)"
    by (simp add: ex_defs ex_active_vehicles_def)
  have c: "rules (items (getQueueData (ex_active_vehicles ex_jeep) Vehicles) ! 0) = ex_jeep"
    "queueData_type (getQueueData (ex_active_vehicles ex_jeep) Vehicles) = Vehicles"
    by (simp_all add: ex_defs ex_active_vehicles_def)
  have p: "getPriorityForBuildingOption (ex_building 50) ex_jeep (ex_game (replicate 30 ex_jeep))
        (ex_player 0) None = 20"
    "getPriorityForBuildingOption (ex_building 50) ex_jeep (ex_game (replicate 25 ex_jeep))
        (ex_player 0) None = 25"
    by simp_all
  have n: "name ex_jeep = ''FV''" "type ex_jeep = 1" by (simp_all add: ex_defs)
  from updateBuildQueue_cancel_iff_twice_current [OF a i u, of "ex_building 50"
      "ex_game (replicate 30 ex_jeep)" "ex_player 0" None 50 900]
  have r1: "commands (updateBuildQueue (ex_building 50) (ex_game (replicate 30 ex_jeep))
                  (ex_active_vehicles ex_jeep) (ex_player 0) None Vehicles
                  (Some \<lparr>unit = ex_tank, priority = 50\<rparr>) 50 900)
       = [UnqueueFromProduction Vehicles ''FV'' 1 1]"
    by (simp add: Let_def c p n)
  from updateBuildQueue_cancel_iff_twice_current [OF a i u, of "ex_building 50"
      "ex_game (replicate 25 ex_jeep)" "ex_player 0" None 50 900]
  have r2: "commands (updateBuildQueue (ex_building 50) (ex_game (replicate 25 ex_jeep))
                  (ex_active_vehicles ex_jeep) (ex_player 0) None Vehicles
                  (Some \<lparr>unit = ex_tank, priority = 50\<rparr>) 50 900)
       = []"
    by (simp add: Let_def c p n)
  from a i u p r1 r2 show ?thesis by blast
qed

text \<open>
  Claim C6. For an \<^verbatim>\<open>Active\<close> queue whose front item is the item of the decision,
  the step issues exactly one command, the pause of the queue, when the total cost
  strictly exceeds the credits and the priority of the decision is strictly less
  than a quarter of the total weight, and no command otherwise.
\<close>

theorem updateBuildQueue_pause_iff:
  assumes "status (getQueueData productionApi queueType) = Active"
    and "items (getQueueData productionApi queueType) \<noteq> []"
    and "unit d = rules (items (getQueueData productionApi queueType) ! 0)"
  shows "commands (updateBuildQueue B game productionApi playerData threatCache queueType
                     (Some d) totalWeight totalCost)
           = (if totalCost > credits playerData \<and> priority d < totalWeight * 0.25
              then [PauseProduction (queueData_type (getQueueData productionApi queueType))]
              else [])"
  using assms by (simp add: updateBuildQueue_def Let_def)

text \<open>
  Three instances: paused (cost 2000 over credits 1000, priority 10 under a quarter
  of 100), not paused (priority 10 is a quarter of 40), not paused (cost 1000 within
  the credits).
\<close>

theorem updateBuildQueue_pause_iff_witness:
  "status (getQueueData (ex_active_vehicles ex_tank) Vehicles) = Active
   \<and> items (getQueueData (ex_active_vehicles ex_tank) Vehicles) \<noteq> []
   \<and> unit \<lparr>unit = ex_tank, priority = 10\<rparr>
       = rules (items (getQueueData (ex_active_vehicles ex_tank) Vehicles) ! 0)
   \<and> commands (updateBuildQueue (ex_building 50) (ex_game []) (ex_active_vehicles ex_tank)
                  (ex_player 1000) None Vehicles (Some \<lparr>unit = ex_tank, priority = 10\<rparr>) 100 2000)
       = [PauseProduction Vehicles]
   \<and> commands (updateBuildQueue (ex_building 50) (ex_game []) (ex_active_vehicles ex_tank)
                  (ex_player 1000) None Vehicles (Some \<lparr>unit = ex_tank, priority = 10\<rparr>) 40 2000)
       = []
   \<and> commands (updateBuildQueue (ex_building 50) (ex_game []) (ex_active_vehicles ex_tank)
                  (ex_player 1000) None Vehicles (Some \<lparr>unit = ex_tank, priority = 10\<rparr>) 100 1000)
       = []"
proof -
  have a: "status (getQueueData (ex_active_vehicles ex_tank) Vehicles) = Active"
    by (simp add: ex_defs ex_active_vehicles_def)
  have i: "items (getQueueData (ex_active_vehicles ex_tank) Vehicles) \<noteq> []"
    by (simp add: ex_defs ex_active_vehicles_def)
  have u: "unit \<lparr>unit = ex_tank, priority = 10\<rparr>
       = rules (items (getQueueData (ex_active_vehicles ex_tank) Vehicles) ! 0)"
    by (simp add: ex_defs ex_active_vehicles_def)
  have c: "queueData_type (getQueueData (ex_active_vehicles ex_tank) Vehicles) = Vehicles"
    "credits (ex_player 1000) = 1000"
    by (simp_all add: ex_defs ex_active_vehicles_def)
  note step = updateBuildQueue_pause_iff [OF a i u, of "ex_building 50" "ex_game []"
      "ex_player 1000" None]
  have r1: "commands (updateBuildQueue (ex_building 50) (ex_game []) (ex_active_vehicles ex_tank)
                  (ex_player 1000) None Vehicles (Some \<lparr>unit = ex_tank, priority = 10\<rparr>) 100 2000)
       = [PauseProduction Vehicles]"
    using step [of 100 2000] by (simp add: c)
  have r2: "commands (updateBuildQueue (ex_building 50) (ex_game []) (ex_active_vehicles ex_tank)
                  (ex_player 1000) None Vehicles (Some \<lparr>unit = ex_tank, priority = 10\<rparr>) 40 2000)
       = []"
    using step [of 40 2000] by (simp add: c)
  have r3: "commands (updateBuildQueue (ex_building 50) (ex_game []) (ex_active_vehicles ex_tank)
                  (ex_player 1000) None Vehicles (Some \<lparr>unit = ex_tank, priority = 10\<rparr>) 100 1000)
       = []"
    using step [of 100 1000] by (simp add: c)
  from a i u r1 r2 r3 show ?thesis by blast
qed

subsection \<open>At most one command for a queue in a tick\<close>

text \<open>
  Claim C10. Whatever the status of the queue, the decision, the totals and the
  credits, a call of \<^verbatim>\<open>updateBuildQueue\<close> issues at most one command, and a tick
  makes at most one call for a queue.
\<close>

theorem updateBuildQueue_at_most_one_command:
  "length (commands (updateBuildQueue B game productionApi playerData threatCache queueType
                       d totalWeight totalCost)) \<le> 1
   \<and> length (filter (\<lambda>call. fst call = queueType)
               (onAiUpdate_calls B game productionApi playerData threatCache)) \<le> 1"
proof
  show "length (commands (updateBuildQueue B game productionApi playerData threatCache queueType
                       d totalWeight totalCost)) \<le> 1"
    by (cases "status (getQueueData productionApi queueType)"; cases d)
      (simp_all add: updateBuildQueue_def Let_def split: option.splits)
next
  have "length (filter (\<lambda>call. fst call = queueType)
               (onAiUpdate_calls B game productionApi playerData threatCache))
     = length (filter (\<lambda>q. q = queueType)
         (filter (\<lambda>q. decision (onAiUpdate_decide B game productionApi playerData threatCache q) \<noteq> None)
            queues))"
    by (simp add: onAiUpdate_calls_eq filter_map comp_def)
  also have "\<dots> \<le> length (filter (\<lambda>q. q = queueType) queues)"
    by (rule length_filter_filter_le)
  also have "\<dots> \<le> 1"
    by (cases queueType) (simp_all add: queues_def)
  finally show "length (filter (\<lambda>call. fst call = queueType)
               (onAiUpdate_calls B game productionApi playerData threatCache)) \<le> 1" .
qed

text \<open>An instance, at the paused vehicles queue.\<close>

theorem updateBuildQueue_at_most_one_command_witness:
  "length (commands (updateBuildQueue (ex_building 50) (ex_game []) (ex_active_vehicles ex_tank)
                       (ex_player 1000) None Vehicles
                       (Some \<lparr>unit = ex_tank, priority = 10\<rparr>) 100 2000)) \<le> 1
   \<and> length (filter (\<lambda>call. fst call = Vehicles)
               (onAiUpdate_calls (ex_building 50) (ex_game []) (ex_active_vehicles ex_tank)
                  (ex_player 1000) None)) \<le> 1"
  by (rule updateBuildQueue_at_most_one_command)

subsection \<open>The fallback priority\<close>

text \<open>
  Claim C9. For an item whose name has no entry in \<^verbatim>\<open>BUILDING_NAME_TO_RULES\<close> the
  priority is \<^verbatim>\<open>DEFAULT_BUILDING_PRIORITY\<close> minus the number of visible own units of
  the item. Between two games it does not increase when the owned count does not
  decrease, and strictly decreases when the owned count strictly increases. With a
  default of 50 it is 47 at an owned count of 3 and at most 0 from an owned count
  of 50 on.
\<close>

theorem getPriorityForBuildingOption_fallback:
  assumes "BUILDING_NAME_TO_RULES B (name option) = None"
  shows "let owned = (\<lambda>game. length (getVisibleUnits game (playerData_name playerStatus) ''self''
                                       (\<lambda>r. r = option)));
             fallback = (\<lambda>game. getPriorityForBuildingOption B option game playerStatus threatCache)
         in fallback game = DEFAULT_BUILDING_PRIORITY B - real (owned game)
            \<and> (\<forall>game'. owned game \<le> owned game' \<longrightarrow> fallback game' \<le> fallback game)
            \<and> (\<forall>game'. owned game < owned game' \<longrightarrow> fallback game' < fallback game)
            \<and> (DEFAULT_BUILDING_PRIORITY B = 50 \<and> owned game = 3 \<longrightarrow> fallback game = 47)
            \<and> (DEFAULT_BUILDING_PRIORITY B = 50 \<and> 50 \<le> owned game \<longrightarrow> fallback game \<le> 0)"
  using assms by (simp add: getPriorityForBuildingOption_def Let_def)

text \<open>Instances with a default of 50 and 3, 4 and 50 owned tanks.\<close>

theorem getPriorityForBuildingOption_fallback_witness:
  "BUILDING_NAME_TO_RULES (ex_building 50) (name ex_tank) = None
   \<and> DEFAULT_BUILDING_PRIORITY (ex_building 50) = 50
   \<and> length (getVisibleUnits (ex_game (replicate 3 ex_tank)) (playerData_name (ex_player 0))
               ''self'' (\<lambda>r. r = ex_tank)) = 3
   \<and> getPriorityForBuildingOption (ex_building 50) ex_tank (ex_game (replicate 3 ex_tank))
        (ex_player 0) None = 47
   \<and> getPriorityForBuildingOption (ex_building 50) ex_tank (ex_game (replicate 4 ex_tank))
        (ex_player 0) None
       < getPriorityForBuildingOption (ex_building 50) ex_tank (ex_game (replicate 3 ex_tank))
           (ex_player 0) None
   \<and> getPriorityForBuildingOption (ex_building 50) ex_tank (ex_game (replicate 50 ex_tank))
        (ex_player 0) None \<le> 0"
proof -
  have h: "BUILDING_NAME_TO_RULES (ex_building 50) (name ex_tank) = None" by simp
  have d: "DEFAULT_BUILDING_PRIORITY (ex_building 50) = 50" by simp
  have n: "length (getVisibleUnits (ex_game (replicate k ex_tank)) (playerData_name (ex_player 0))
               ''self'' (\<lambda>r. r = ex_tank)) = k" for k
    by simp
  note fb = getPriorityForBuildingOption_fallback [OF h,
      where playerStatus = "ex_player 0" and threatCache = None, unfolded Let_def d n]
  have a: "getPriorityForBuildingOption (ex_building 50) ex_tank (ex_game (replicate 3 ex_tank))
        (ex_player 0) None = 47"
    using fb [of "ex_game (replicate 3 ex_tank)"] n [of 3] by simp
  have b: "getPriorityForBuildingOption (ex_building 50) ex_tank (ex_game (replicate 4 ex_tank))
        (ex_player 0) None
       < getPriorityForBuildingOption (ex_building 50) ex_tank (ex_game (replicate 3 ex_tank))
           (ex_player 0) None"
    using fb [of "ex_game (replicate 3 ex_tank)"] n [of 3] n [of 4] by simp
  have c: "getPriorityForBuildingOption (ex_building 50) ex_tank (ex_game (replicate 50 ex_tank))
        (ex_player 0) None \<le> 0"
    using fb [of "ex_game (replicate 50 ex_tank)"] n [of 50] by simp
  from h d n [of 3] a b c show ?thesis by blast
qed

subsection \<open>The priority of a static ground defence\<close>

text \<open>
  Claim C7, as the code has it. For a defence of positive base priority, base
  amount and ground strength and an item of positive cost: with a threat cache
  whose own firepower and defensive power are not negative the priority is not
  negative; without a threat cache the priority is not negative exactly when the
  number of owned buildings of the type is at most the base amount.
\<close>

theorem AntiGroundStaticDefence_getPriority_nonnegative:
  assumes "0 < basePriority this" and "0 < groundStrength this" and "0 < baseAmount this"
    and "0 < cost technoRules"
  shows "(0 \<le> totalAvailableAntiGroundFirepower threat \<and> 0 \<le> totalDefensivePower threat \<longrightarrow>
           (\<exists>score. AntiGroundStaticDefence_getPriority numBuildingsOwnedOfType this game
                       playerData technoRules (Some threat) = Some score
                    \<and> 0 \<le> score))
       \<and> (\<exists>score. AntiGroundStaticDefence_getPriority numBuildingsOwnedOfType this game
                      playerData technoRules None = Some score
                   \<and> (0 \<le> score
                        \<longleftrightarrow> real (numBuildingsOwnedOfType game playerData technoRules)
                              \<le> baseAmount this))"
proof (intro conjI impI)
  assume nonneg: "0 \<le> totalAvailableAntiGroundFirepower threat \<and> 0 \<le> totalDefensivePower threat"
  let ?den = "totalAvailableAntiGroundFirepower threat + totalDefensivePower threat
                + groundStrength this"
  have den: "0 < ?den" using nonneg assms(2) by simp
  show "\<exists>score. AntiGroundStaticDefence_getPriority numBuildingsOwnedOfType this game
                       playerData technoRules (Some threat) = Some score
                    \<and> 0 \<le> score"
  proof (cases "totalOffensiveLandThreat threat > ?den * 1.1")
    case True
    from den have "0 < ?den * 1.1" by simp
    with True have "0 < totalOffensiveLandThreat threat" by linarith
    then have "0 \<le> basePriority this * (totalOffensiveLandThreat threat / max 1 ?den)"
      using assms(1) by simp
    with True show ?thesis
      by (simp add: AntiGroundStaticDefence_getPriority_def Let_def)
  next
    case False
    then show ?thesis
      by (simp add: AntiGroundStaticDefence_getPriority_def Let_def)
  qed
next
  let ?n = "real (numBuildingsOwnedOfType game playerData technoRules)"
  let ?k = "groundStrength this / cost technoRules * 1000"
  let ?s = "basePriority this * (1.0 - ?n / baseAmount this) * ?k"
  have k: "0 < ?k" using assms(2,4) by simp
  have val: "AntiGroundStaticDefence_getPriority numBuildingsOwnedOfType this game
                      playerData technoRules None = Some ?s"
    using assms(3,4) by (simp add: AntiGroundStaticDefence_getPriority_def Let_def)
  have "0 \<le> ?s \<longleftrightarrow> 0 \<le> basePriority this * (1.0 - ?n / baseAmount this)"
    by (rule nonneg_mult_pos_iff [OF k])
  also have "\<dots> \<longleftrightarrow> 0 \<le> 1.0 - ?n / baseAmount this"
    by (rule nonneg_pos_mult_iff [OF assms(1)])
  also have "\<dots> \<longleftrightarrow> ?n \<le> baseAmount this"
    using assms(3) by (simp add: field_simps)
  finally have "0 \<le> ?s \<longleftrightarrow> ?n \<le> baseAmount this" .
  with val show "\<exists>score. AntiGroundStaticDefence_getPriority numBuildingsOwnedOfType this game
                      playerData technoRules None = Some score
                   \<and> (0 \<le> score \<longleftrightarrow> ?n \<le> baseAmount this)"
    by blast
qed

text \<open>An instance, with and without a threat cache, one pillbox owned of a base amount of 1.\<close>

theorem AntiGroundStaticDefence_getPriority_nonnegative_witness:
  "0 < basePriority (ex_defence 5) \<and> 0 < groundStrength (ex_defence 5)
   \<and> 0 < baseAmount (ex_defence 5) \<and> 0 < cost ex_pillbox
   \<and> 0 \<le> totalAvailableAntiGroundFirepower (ex_threat 200)
   \<and> 0 \<le> totalDefensivePower (ex_threat 200)
   \<and> (\<exists>score. AntiGroundStaticDefence_getPriority ex_numBuildingsOwnedOfType (ex_defence 5)
                  (ex_game [ex_pillbox]) (ex_player 0) ex_pillbox (Some (ex_threat 200))
                  = Some score \<and> 0 \<le> score)
   \<and> (\<exists>score. AntiGroundStaticDefence_getPriority ex_numBuildingsOwnedOfType (ex_defence 5)
                  (ex_game [ex_pillbox]) (ex_player 0) ex_pillbox None
                  = Some score \<and> 0 \<le> score)"
proof -
  have h: "0 < basePriority (ex_defence 5)" "0 < groundStrength (ex_defence 5)"
    "0 < baseAmount (ex_defence 5)" "0 < cost ex_pillbox"
    by (simp_all add: ex_defence_def ex_pillbox_def ex_rules_def)
  have t: "0 \<le> totalAvailableAntiGroundFirepower (ex_threat 200)"
    "0 \<le> totalDefensivePower (ex_threat 200)"
    by (simp_all add: ex_threat_def)
  have n: "real (ex_numBuildingsOwnedOfType (ex_game [ex_pillbox]) (ex_player 0) ex_pillbox)
             \<le> baseAmount (ex_defence 5)"
    by (simp add: ex_numBuildingsOwnedOfType_def ex_defence_def)
  from AntiGroundStaticDefence_getPriority_nonnegative [OF h, of "ex_threat 200"
      ex_numBuildingsOwnedOfType "ex_game [ex_pillbox]" "ex_player 0"] t n
  show ?thesis using h by blast
qed

text \<open>
  Claim C7 as stated fails: without a threat cache, with two pillboxes owned and a
  base amount of 1, the priority is \<open>17 * (1 - 2 / 1) * (5 / 500 * 1000) = - 170\<close>.
\<close>

theorem AntiGroundStaticDefence_getPriority_negative:
  "AntiGroundStaticDefence_getPriority ex_numBuildingsOwnedOfType (ex_defence 5)
     (ex_game [ex_pillbox, ex_pillbox]) (ex_player 0) ex_pillbox None = Some (- 170)
   \<and> (- 170 :: number) < 0"
  by (simp add: AntiGroundStaticDefence_getPriority_def ex_numBuildingsOwnedOfType_def
      ex_defence_def ex_pillbox_def ex_rules_def)

text \<open>
  Claim C8. With a threat cache the priority is
  \<open>basePriority * totalOffensiveLandThreat / max 1 denominator\<close> when the offensive
  land threat exceeds 1.1 times the denominator, the sum of the own anti-ground
  firepower, the own defensive power and the ground strength of the defence, and 0
  otherwise. With firepower 100, defensive power 50 and ground strength 20 it is
  \<open>basePriority * 200 / 170\<close> at a threat of 200 and 0 at a threat of 180.
\<close>

theorem AntiGroundStaticDefence_getPriority_with_threat:
  "AntiGroundStaticDefence_getPriority numBuildingsOwnedOfType this game playerData technoRules
       (Some threat)
     = Some (let denominator =
                   totalAvailableAntiGroundFirepower threat + totalDefensivePower threat
                     + groundStrength this
             in if totalOffensiveLandThreat threat > denominator * 1.1
                then basePriority this * totalOffensiveLandThreat threat / max 1 denominator
                else 0)
   \<and> (totalAvailableAntiGroundFirepower threat = 100 \<and> totalDefensivePower threat = 50
        \<and> groundStrength this = 20 \<longrightarrow>
        (totalOffensiveLandThreat threat = 200 \<longrightarrow>
           AntiGroundStaticDefence_getPriority numBuildingsOwnedOfType this game playerData
               technoRules (Some threat)
             = Some (basePriority this * 200 / 170))
        \<and> (totalOffensiveLandThreat threat = 180 \<longrightarrow>
             AntiGroundStaticDefence_getPriority numBuildingsOwnedOfType this game playerData
                 technoRules (Some threat)
               = Some 0))"
  by (simp add: AntiGroundStaticDefence_getPriority_def Let_def)

text \<open>An instance with base priority 17: \<open>17 * 200 / 170 = 20\<close>.\<close>

theorem AntiGroundStaticDefence_getPriority_with_threat_witness:
  "totalAvailableAntiGroundFirepower (ex_threat 200) = 100
   \<and> totalDefensivePower (ex_threat 200) = 50
   \<and> groundStrength (ex_defence 20) = 20
   \<and> totalOffensiveLandThreat (ex_threat 200) = 200
   \<and> totalOffensiveLandThreat (ex_threat 180) = 180
   \<and> AntiGroundStaticDefence_getPriority ex_numBuildingsOwnedOfType (ex_defence 20)
        (ex_game []) (ex_player 0) ex_pillbox (Some (ex_threat 200)) = Some 20
   \<and> AntiGroundStaticDefence_getPriority ex_numBuildingsOwnedOfType (ex_defence 20)
        (ex_game []) (ex_player 0) ex_pillbox (Some (ex_threat 180)) = Some 0"
proof -
  have h: "totalAvailableAntiGroundFirepower (ex_threat e) = 100"
    "totalDefensivePower (ex_threat e) = 50"
    "groundStrength (ex_defence 20) = 20"
    "totalOffensiveLandThreat (ex_threat e) = e"
    "basePriority (ex_defence 20) = 17" for e
    by (simp_all add: ex_threat_def ex_defence_def)
  from AntiGroundStaticDefence_getPriority_with_threat [of ex_numBuildingsOwnedOfType
      "ex_defence 20" "ex_game []" "ex_player 0" ex_pillbox "ex_threat 200"]
  have a: "AntiGroundStaticDefence_getPriority ex_numBuildingsOwnedOfType (ex_defence 20)
        (ex_game []) (ex_player 0) ex_pillbox (Some (ex_threat 200)) = Some 20"
    by (simp add: h)
  from AntiGroundStaticDefence_getPriority_with_threat [of ex_numBuildingsOwnedOfType
      "ex_defence 20" "ex_game []" "ex_player 0" ex_pillbox "ex_threat 180"]
  have b: "AntiGroundStaticDefence_getPriority ex_numBuildingsOwnedOfType (ex_defence 20)
        (ex_game []) (ex_player 0) ex_pillbox (Some (ex_threat 180)) = Some 0"
    by (simp add: h)
  from a b h show ?thesis by simp
qed

end
